theory Spec2Isabelle
  imports Main
begin

section \<open>JavaScript values\<close>

text \<open>
  The values the two modules handle: the realm name, the client id, the record
  (a permission or a policy), the type and id of a record, the error and the body a
  transport hands to a callback. An object is an ordinary object given by the list of
  its own data properties (the first binding of a key is the property). A number is
  given by its string form, the result of \<open>Number::toString\<close> (\<open>JNum ''2018''\<close>,
  \<open>JNum ''1e+21''\<close>, \<open>JNum ''NaN''\<close>; both zeros are \<open>JNum ''0''\<close>): the modules
  only test a number for truth and print it. \<open>JError m\<close> is the object that
  \<open>new Error(m)\<close> builds.
\<close>

datatype jsval =
    JUndefined
  | JNull
  | JBool bool
  | JNum string
  | JStr string
  | JError string
  | JObj "(string \<times> jsval) list"

text \<open>What \<open>if (v)\<close> and \<open>!v\<close> test: zero and NaN are the falsy numbers.\<close>

fun truthy :: "jsval \<Rightarrow> bool" where
  "truthy JUndefined = False"
| "truthy JNull = False"
| "truthy (JBool b) = b"
| "truthy (JNum s) = (s \<noteq> ''0'' \<and> s \<noteq> ''NaN'')"
| "truthy (JStr s) = (s \<noteq> [])"
| "truthy (JError m) = True"
| "truthy (JObj fs) = True"

text \<open>
  The conversion to a string that a template literal applies to \<open>${v}\<close>; \<open>None\<close> is
  the TypeError it throws. An object is converted through its \<open>toString\<close>: without an
  own property of that name the inherited method yields \<open>[object Object]\<close>; with one
  (a data property, which cannot be called) no method yields a primitive value and the
  conversion throws. An Error prints its name and message.
\<close>

fun to_string :: "jsval \<Rightarrow> string option" where
  "to_string JUndefined = Some ''undefined''"
| "to_string JNull = Some ''null''"
| "to_string (JBool b) = Some (if b then ''true'' else ''false'')"
| "to_string (JNum s) = Some s"
| "to_string (JStr s) = Some s"
| "to_string (JError m) = Some (if m = [] then ''Error'' else ''Error: '' @ m)"
| "to_string (JObj fs) =
     (if map_of fs ''toString'' = None then Some ''[object Object]'' else None)"

text \<open>
  A template literal: its text and its substitutions, converted from left to right. The
  first conversion that throws ends the evaluation.
\<close>

datatype piece = Text string | Subst jsval

fun template_literal :: "piece list \<Rightarrow> string option" where
  "template_literal [] = Some []"
| "template_literal (Text s # ps) =
     (case template_literal ps of None \<Rightarrow> None | Some rest \<Rightarrow> Some (s @ rest))"
| "template_literal (Subst v # ps) =
     (case to_string v of
        None \<Rightarrow> None
      | Some s \<Rightarrow> (case template_literal ps of None \<Rightarrow> None | Some rest \<Rightarrow> Some (s @ rest)))"

text \<open>
  The properties the modules read: \<open>.type\<close> and \<open>.id\<close> of a record and
  \<open>.accessToken\<close> of a credential entry. No built-in prototype defines one of them.
\<close>

datatype property = Prop_type | Prop_id | Prop_accessToken

fun property_name :: "property \<Rightarrow> string" where
  "property_name Prop_type = ''type''"
| "property_name Prop_id = ''id''"
| "property_name Prop_accessToken = ''accessToken''"

text \<open>
  The property read \<open>v.k\<close>. On \<open>undefined\<close> and \<open>null\<close> the read throws a
  TypeError: that is \<open>None\<close>. On every other value a missing property reads as
  \<open>undefined\<close>.
\<close>

fun get_prop :: "jsval \<Rightarrow> property \<Rightarrow> jsval option" where
  "get_prop JUndefined k = None"
| "get_prop JNull k = None"
| "get_prop (JObj fs) k =
     Some (case map_of fs (property_name k) of None \<Rightarrow> JUndefined | Some v \<Rightarrow> v)"
| "get_prop v k = Some JUndefined"

section \<open>Client handle, credential holder, requests and promises\<close>

text \<open>
  The client handle carries the base URL. The credential holder is the shared map
  \<open>privates\<close>, read with \<open>privates.get(client)\<close>: it yields the entry stored for
  the handle (an object with the field \<open>accessToken\<close>), or \<open>undefined\<close> when the
  handle has no entry. The map itself is filled by the login flow and is a parameter of
  every operation here.
\<close>

record client =
  handle :: nat
  baseUrl :: string

type_synonym privates = "client \<Rightarrow> jsval"

record auth_opts =
  bearer :: jsval

text \<open>
  The options object given to \<open>request\<close> (\<open>method'\<close> is its field \<open>method\<close>).
  \<open>body\<close> and \<open>method\<close> are absent from the object that \<open>find\<close> builds, and
  \<open>body\<close> from the one \<open>remove\<close> builds.
\<close>

record request_opts =
  url :: string
  auth :: auth_opts
  body :: "jsval option"
  method' :: "string option"
  json :: bool

record response =
  statusCode :: int

text \<open>
  Which module's \<open>find\<close> an \<open>update\<close> calls on the client:
  \<open>client.clients.authorizations.permissions.find\<close> or
  \<open>client.clients.authorizations.policies.find\<close>, with its four arguments.
\<close>

datatype resource_module = Permissions | Policies

datatype find_call = FindCall resource_module jsval jsval jsval jsval

text \<open>
  What an operation does, in order: \<open>Request\<close> is the call of \<open>request(req, cb)\<close>,
  \<open>Reject\<close> and \<open>Resolve\<close> are the calls of the promise's two functions,
  \<open>FindCalled\<close> is a call of the client's \<open>find\<close> and \<open>ResolveWith\<close> the call of
  \<open>resolve\<close> on the promise that call returned. \<open>Throw\<close> is a TypeError raised
  inside the executor (the promise constructor catches it), \<open>Uncaught\<close> one raised
  inside a callback.
\<close>

datatype event =
    Request request_opts
  | Reject jsval
  | Resolve jsval
  | FindCalled find_call
  | ResolveWith find_call
  | Throw
  | Uncaught

type_synonym callback = "jsval \<Rightarrow> response \<Rightarrow> jsval \<Rightarrow> event list"

text \<open>
  The run of an executor \<open>(resolve, reject) => {...}\<close>: it ends by itself
  (\<open>Finished\<close>, with what it did), or it hands a request and a callback to
  \<open>request\<close> (\<open>Requested\<close>).
\<close>

datatype executor = Finished "event list" | Requested request_opts callback

text \<open>
  The transport is the external \<open>request\<close> function: it answers a request by
  calling the callback once with \<open>(err, resp, body)\<close>.
\<close>

type_synonym transport = "request_opts \<Rightarrow> jsval \<times> response \<times> jsval"

fun run :: "transport \<Rightarrow> executor \<Rightarrow> event list" where
  "run T (Finished es) = es"
| "run T (Requested req cb) =
     Request req # (case T req of (err, resp, body') \<Rightarrow> cb err resp body')"

datatype promise_state =
    Pending
  | Fulfilled jsval
  | Rejected jsval
  | Rejected_TypeError

text \<open>
  The state a promise reaches: the first call of \<open>resolve\<close> or \<open>reject\<close> decides,
  a promise resolved with another promise follows that one (\<open>F\<close> gives the state the
  promise of a \<open>find\<close> call reaches), and an executor that throws before settling
  rejects the promise.
\<close>

fun settle :: "(find_call \<Rightarrow> promise_state) \<Rightarrow> event list \<Rightarrow> promise_state" where
  "settle F [] = Pending"
| "settle F (Reject e # es) = Rejected e"
| "settle F (Resolve v # es) = Fulfilled v"
| "settle F (ResolveWith fc # es) = F fc"
| "settle F (Throw # es) = Rejected_TypeError"
| "settle F (Uncaught # es) = Pending"
| "settle F (Request req # es) = settle F es"
| "settle F (FindCalled fc # es) = settle F es"

fun is_settlement :: "event \<Rightarrow> bool" where
  "is_settlement (Reject e) = True"
| "is_settlement (Resolve v) = True"
| "is_settlement (ResolveWith fc) = True"
| "is_settlement e = False"

definition settlements :: "event list \<Rightarrow> nat" where
  "settlements es = length (filter is_settlement es)"

definition requests :: "event list \<Rightarrow> request_opts list" where
  "requests es = concat (map (\<lambda>e. case e of Request req \<Rightarrow> [req] | _ \<Rightarrow> []) es)"

definition find_calls :: "event list \<Rightarrow> find_call list" where
  "find_calls es = concat (map (\<lambda>e. case e of FindCalled fc \<Rightarrow> [fc] | _ \<Rightarrow> []) es)"

section \<open>The permissions module\<close>

definition permissions_create_callback :: callback where
  "permissions_create_callback err resp body' =
     (if truthy err then [Reject err]
      else if statusCode resp \<noteq> 201 then [Reject body']
      else [Resolve body'])"

definition permissions_create ::
  "privates \<Rightarrow> client \<Rightarrow> jsval \<Rightarrow> jsval \<Rightarrow> jsval \<Rightarrow> executor" where
  "permissions_create privates client realm id' permission =
     (if \<not> truthy permission then Finished [Reject (JError ''permission is missing'')]
      else case get_prop permission Prop_type of
        None \<Rightarrow> Finished [Throw]
      | Some permission_type \<Rightarrow>
          (case template_literal
                  [Subst (JStr (baseUrl client)), Text ''/admin/realms/'', Subst realm,
                   Text ''/clients/'', Subst id',
                   Text ''/authz/resource-server/permission/'', Subst permission_type] of
            None \<Rightarrow> Finished [Throw]
          | Some url' \<Rightarrow>
              (case get_prop (privates client) Prop_accessToken of
                None \<Rightarrow> Finished [Throw]
              | Some accessToken \<Rightarrow>
                  Requested
                    \<lparr> url = url',
                      auth = \<lparr> bearer = accessToken \<rparr>,
                      body = Some permission,
                      method' = Some ''POST'',
                      json = True \<rparr>
                    permissions_create_callback)))"

definition permissions_find_callback :: callback where
  "permissions_find_callback err resp body' =
     (if truthy err then [Reject err]
      else if statusCode resp \<noteq> 200 then [Reject body']
      else [Resolve body'])"

definition permissions_find ::
  "privates \<Rightarrow> client \<Rightarrow> jsval \<Rightarrow> jsval \<Rightarrow> jsval \<Rightarrow> jsval \<Rightarrow> executor" where
  "permissions_find privates client realm id' permissionType permissionId =
     (case get_prop (privates client) Prop_accessToken of
        None \<Rightarrow> Finished [Throw]
      | Some accessToken \<Rightarrow>
          (case (if truthy permissionId \<and> truthy permissionType
                 then template_literal
                        [Subst (JStr (baseUrl client)), Text ''/admin/realms/'', Subst realm,
                         Text ''/clients/'', Subst id',
                         Text ''/authz/resource-server/permission/'', Subst permissionType,
                         Text ''/'', Subst permissionId]
                 else template_literal
                        [Subst (JStr (baseUrl client)), Text ''/admin/realms/'', Subst realm,
                         Text ''/clients/'', Subst id',
                         Text ''/authz/resource-server/permission'']) of
            None \<Rightarrow> Finished [Throw]
          | Some url' \<Rightarrow>
              Requested
                \<lparr> url = url',
                  auth = \<lparr> bearer = accessToken \<rparr>,
                  body = None,
                  method' = None,
                  json = True \<rparr>
                permissions_find_callback))"

definition permissions_update_callback :: "jsval \<Rightarrow> jsval \<Rightarrow> jsval \<Rightarrow> callback" where
  "permissions_update_callback realm id' permission err resp body' =
     (if truthy err then [Reject err]
      else if statusCode resp \<noteq> 204 then [Reject body']
      else case get_prop permission Prop_type of
        None \<Rightarrow> [Uncaught]
      | Some permission_type \<Rightarrow>
          (case get_prop permission Prop_id of
            None \<Rightarrow> [Uncaught]
          | Some permission_id \<Rightarrow>
              [FindCalled (FindCall Permissions realm id' permission_type permission_id),
               ResolveWith (FindCall Permissions realm id' permission_type permission_id)]))"

definition permissions_update ::
  "privates \<Rightarrow> client \<Rightarrow> jsval \<Rightarrow> jsval \<Rightarrow> jsval \<Rightarrow> executor" where
  "permissions_update privates client realm id' permission =
     (if \<not> truthy permission then Finished [Reject (JError ''permission is missing'')]
      else case get_prop permission Prop_type of
        None \<Rightarrow> Finished [Throw]
      | Some permission_type \<Rightarrow>
          (case get_prop permission Prop_id of
            None \<Rightarrow> Finished [Throw]
          | Some permission_id \<Rightarrow>
              (case template_literal
                      [Subst (JStr (baseUrl client)), Text ''/admin/realms/'', Subst realm,
                       Text ''/clients/'', Subst id',
                       Text ''/authz/resource-server/permission/'', Subst permission_type,
                       Text ''/'', Subst permission_id] of
                None \<Rightarrow> Finished [Throw]
              | Some url' \<Rightarrow>
                  (case get_prop (privates client) Prop_accessToken of
                    None \<Rightarrow> Finished [Throw]
                  | Some accessToken \<Rightarrow>
                      Requested
                        \<lparr> url = url',
                          auth = \<lparr> bearer = accessToken \<rparr>,
                          body = Some permission,
                          method' = Some ''PUT'',
                          json = True \<rparr>
                        (permissions_update_callback realm id' permission)))))"

definition permissions_remove_callback :: callback where
  "permissions_remove_callback err resp body' =
     (if truthy err then [Reject err]
      else if statusCode resp \<noteq> 204 then [Reject body']
      else [Resolve JUndefined])"

definition permissions_remove ::
  "privates \<Rightarrow> client \<Rightarrow> jsval \<Rightarrow> jsval \<Rightarrow> jsval \<Rightarrow> executor" where
  "permissions_remove privates client realm id' permissionId =
     (if \<not> truthy permissionId then Finished [Reject (JError ''permissionId is missing'')]
      else case template_literal
                  [Subst (JStr (baseUrl client)), Text ''/admin/realms/'', Subst realm,
                   Text ''/clients/'', Subst id',
                   Text ''/authz/resource-server/permission/'', Subst permissionId] of
        None \<Rightarrow> Finished [Throw]
      | Some url' \<Rightarrow>
          (case get_prop (privates client) Prop_accessToken of
            None \<Rightarrow> Finished [Throw]
          | Some accessToken \<Rightarrow>
              Requested
                \<lparr> url = url',
                  auth = \<lparr> bearer = accessToken \<rparr>,
                  body = None,
                  method' = Some ''DELETE'',
                  json = True \<rparr>
                permissions_remove_callback))"

section \<open>The policies module\<close>

definition policies_create_callback :: callback where
  "policies_create_callback err resp body' =
     (if truthy err then [Reject err]
      else if statusCode resp \<noteq> 201 then [Reject body']
      else [Resolve body'])"

definition policies_create ::
  "privates \<Rightarrow> client \<Rightarrow> jsval \<Rightarrow> jsval \<Rightarrow> jsval \<Rightarrow> executor" where
  "policies_create privates client realm id' policy =
     (if \<not> truthy policy then Finished [Reject (JError ''policy is missing'')]
      else case get_prop policy Prop_type of
        None \<Rightarrow> Finished [Throw]
      | Some policy_type \<Rightarrow>
          (case template_literal
                  [Subst (JStr (baseUrl client)), Text ''/admin/realms/'', Subst realm,
                   Text ''/clients/'', Subst id',
                   Text ''/authz/resource-server/policy/'', Subst policy_type] of
            None \<Rightarrow> Finished [Throw]
          | Some url' \<Rightarrow>
              (case get_prop (privates client) Prop_accessToken of
                None \<Rightarrow> Finished [Throw]
              | Some accessToken \<Rightarrow>
                  Requested
                    \<lparr> url = url',
                      auth = \<lparr> bearer = accessToken \<rparr>,
                      body = Some policy,
                      method' = Some ''POST'',
                      json = True \<rparr>
                    policies_create_callback)))"

definition policies_find_callback :: callback where
  "policies_find_callback err resp body' =
     (if truthy err then [Reject err]
      else if statusCode resp \<noteq> 200 then [Reject body']
      else [Resolve body'])"

definition policies_find ::
  "privates \<Rightarrow> client \<Rightarrow> jsval \<Rightarrow> jsval \<Rightarrow> jsval \<Rightarrow> jsval \<Rightarrow> executor" where
  "policies_find privates client realm id' policyType policyId =
     (case get_prop (privates client) Prop_accessToken of
        None \<Rightarrow> Finished [Throw]
      | Some accessToken \<Rightarrow>
          (case (if truthy policyId \<and> truthy policyType
                 then template_literal
                        [Subst (JStr (baseUrl client)), Text ''/admin/realms/'', Subst realm,
                         Text ''/clients/'', Subst id',
                         Text ''/authz/resource-server/policy/'', Subst policyType,
                         Text ''/'', Subst policyId]
                 else template_literal
                        [Subst (JStr (baseUrl client)), Text ''/admin/realms/'', Subst realm,
                         Text ''/clients/'', Subst id',
                         Text ''/authz/resource-server/policy'']) of
            None \<Rightarrow> Finished [Throw]
          | Some url' \<Rightarrow>
              Requested
                \<lparr> url = url',
                  auth = \<lparr> bearer = accessToken \<rparr>,
                  body = None,
                  method' = None,
                  json = True \<rparr>
                policies_find_callback))"

definition policies_update_callback :: "jsval \<Rightarrow> jsval \<Rightarrow> jsval \<Rightarrow> callback" where
  "policies_update_callback realm id' policy err resp body' =
     (if truthy err then [Reject err]
      else if statusCode resp \<noteq> 204 then [Reject body']
      else case get_prop policy Prop_type of
        None \<Rightarrow> [Uncaught]
      | Some policy_type \<Rightarrow>
          (case get_prop policy Prop_id of
            None \<Rightarrow> [Uncaught]
          | Some policy_id \<Rightarrow>
              [FindCalled (FindCall Policies realm id' policy_type policy_id),
               ResolveWith (FindCall Policies realm id' policy_type policy_id)]))"

definition policies_update ::
  "privates \<Rightarrow> client \<Rightarrow> jsval \<Rightarrow> jsval \<Rightarrow> jsval \<Rightarrow> executor" where
  "policies_update privates client realm id' policy =
     (if \<not> truthy policy then Finished [Reject (JError ''policy is missing'')]
      else case get_prop policy Prop_type of
        None \<Rightarrow> Finished [Throw]
      | Some policy_type \<Rightarrow>
          (case get_prop policy Prop_id of
            None \<Rightarrow> Finished [Throw]
          | Some policy_id \<Rightarrow>
              (case template_literal
                      [Subst (JStr (baseUrl client)), Text ''/admin/realms/'', Subst realm,
                       Text ''/clients/'', Subst id',
                       Text ''/authz/resource-server/policy/'', Subst policy_type,
                       Text ''/'', Subst policy_id] of
                None \<Rightarrow> Finished [Throw]
              | Some url' \<Rightarrow>
                  (case get_prop (privates client) Prop_accessToken of
                    None \<Rightarrow> Finished [Throw]
                  | Some accessToken \<Rightarrow>
                      Requested
                        \<lparr> url = url',
                          auth = \<lparr> bearer = accessToken \<rparr>,
                          body = Some policy,
                          method' = Some ''PUT'',
                          json = True \<rparr>
                        (policies_update_callback realm id' policy)))))"

definition policies_remove_callback :: callback where
  "policies_remove_callback err resp body' =
     (if truthy err then [Reject err]
      else if statusCode resp \<noteq> 204 then [Reject body']
      else [Resolve JUndefined])"

definition policies_remove ::
  "privates \<Rightarrow> client \<Rightarrow> jsval \<Rightarrow> jsval \<Rightarrow> jsval \<Rightarrow> executor" where
  "policies_remove privates client realm id' policyId =
     (if \<not> truthy policyId then Finished [Reject (JError ''policyId is missing'')]
      else case template_literal
                  [Subst (JStr (baseUrl client)), Text ''/admin/realms/'', Subst realm,
                   Text ''/clients/'', Subst id',
                   Text ''/authz/resource-server/policy/'', Subst policyId] of
        None \<Rightarrow> Finished [Throw]
      | Some url' \<Rightarrow>
          (case get_prop (privates client) Prop_accessToken of
            None \<Rightarrow> Finished [Throw]
          | Some accessToken \<Rightarrow>
              Requested
                \<lparr> url = url',
                  auth = \<lparr> bearer = accessToken \<rparr>,
                  body = None,
                  method' = Some ''DELETE'',
                  json = True \<rparr>
                policies_remove_callback))"

section \<open>The exported operations\<close>

text \<open>
  The calls a caller can make: \<open>client.clients.authorizations.<module>.<verb>(...)\<close>,
  with the arguments of the inner function. \<open>perform\<close> is the executor of the
  promise that the call returns.
\<close>

datatype operation =
    Create resource_module jsval jsval jsval
  | Find resource_module jsval jsval jsval jsval
  | Update resource_module jsval jsval jsval
  | Remove resource_module jsval jsval jsval

fun perform :: "privates \<Rightarrow> client \<Rightarrow> operation \<Rightarrow> executor" where
  "perform privates client (Create Permissions realm id' permission) =
     permissions_create privates client realm id' permission"
| "perform privates client (Find Permissions realm id' permissionType permissionId) =
     permissions_find privates client realm id' permissionType permissionId"
| "perform privates client (Update Permissions realm id' permission) =
     permissions_update privates client realm id' permission"
| "perform privates client (Remove Permissions realm id' permissionId) =
     permissions_remove privates client realm id' permissionId"
| "perform privates client (Create Policies realm id' policy) =
     policies_create privates client realm id' policy"
| "perform privates client (Find Policies realm id' policyType policyId) =
     policies_find privates client realm id' policyType policyId"
| "perform privates client (Update Policies realm id' policy) =
     policies_update privates client realm id' policy"
| "perform privates client (Remove Policies realm id' policyId) =
     policies_remove privates client realm id' policyId"

text \<open>The success code the callback of each verb compares the status with.\<close>

fun success_code :: "operation \<Rightarrow> int" where
  "success_code (Create m realm id' rcd) = 201"
| "success_code (Find m realm id' record_type record_id) = 200"
| "success_code (Update m realm id' rcd) = 204"
| "success_code (Remove m realm id' record_id) = 204"

section \<open>When an operation reaches its request\<close>

text \<open>
  Two things stop an executor before it calls \<open>request\<close>: the guard on the required
  argument (the record of create and update, the id of remove; find has none), and a
  TypeError. The executor throws a TypeError when a value that the URL template
  interpolates cannot be converted to a string, or when the client has no entry in the
  credential holder. An operation is \<open>ready\<close> when neither happens; this is read off
  the arguments alone.
\<close>

definition printable :: "jsval \<Rightarrow> bool" where
  "printable v = (to_string v \<noteq> None)"

definition logged_in :: "privates \<Rightarrow> client \<Rightarrow> bool" where
  "logged_in privates client = (get_prop (privates client) Prop_accessToken \<noteq> None)"

fun required_present :: "operation \<Rightarrow> bool" where
  "required_present (Create m realm id' rcd) = truthy rcd"
| "required_present (Find m realm id' record_type record_id) = True"
| "required_present (Update m realm id' rcd) = truthy rcd"
| "required_present (Remove m realm id' record_id) = truthy record_id"

fun ready :: "privates \<Rightarrow> client \<Rightarrow> operation \<Rightarrow> bool" where
  "ready privates client (Create m realm id' rcd) =
     (truthy rcd \<and> printable realm \<and> printable id'
      \<and> (case get_prop rcd Prop_type of None \<Rightarrow> False | Some t \<Rightarrow> printable t)
      \<and> logged_in privates client)"
| "ready privates client (Find m realm id' record_type record_id) =
     (printable realm \<and> printable id'
      \<and> (if truthy record_id \<and> truthy record_type
          then printable record_type \<and> printable record_id else True)
      \<and> logged_in privates client)"
| "ready privates client (Update m realm id' rcd) =
     (truthy rcd \<and> printable realm \<and> printable id'
      \<and> (case get_prop rcd Prop_type of None \<Rightarrow> False | Some t \<Rightarrow> printable t)
      \<and> (case get_prop rcd Prop_id of None \<Rightarrow> False | Some i \<Rightarrow> printable i)
      \<and> logged_in privates client)"
| "ready privates client (Remove m realm id' record_id) =
     (truthy record_id \<and> printable realm \<and> printable id' \<and> printable record_id
      \<and> logged_in privates client)"

section \<open>The URL scheme of the specification\<close>

text \<open>
  The URL scheme of the wire protocol, as the specification writes it:
  \<open>{baseUrl}/admin/realms/{realm}/clients/{clientId}/authz/resource-server/{resource-type}[/{subType}][/{id}]\<close>.
\<close>

definition spec_url ::
  "string \<Rightarrow> string \<Rightarrow> string \<Rightarrow> string \<Rightarrow> string option \<Rightarrow> string option \<Rightarrow> string" where
  "spec_url base realm clientId resource_type subType record_id =
     base @ ''/admin/realms/'' @ realm @ ''/clients/'' @ clientId
       @ ''/authz/resource-server/'' @ resource_type
       @ (case subType of None \<Rightarrow> [] | Some t \<Rightarrow> ''/'' @ t)
       @ (case record_id of None \<Rightarrow> [] | Some i \<Rightarrow> ''/'' @ i)"

fun path_segment :: "resource_module \<Rightarrow> string" where
  "path_segment Permissions = ''permission''"
| "path_segment Policies = ''policy''"

fun argument_name :: "resource_module \<Rightarrow> string" where
  "argument_name Permissions = ''permission''"
| "argument_name Policies = ''policy''"

section \<open>Comparing the two modules\<close>

text \<open>
  Two requests that differ in nothing but the resource-type segment of the URL (both are
  instances of the URL scheme, on the same arguments but for the resource type), and two
  executors that differ in nothing but that segment, the argument name at the head of the
  missing-argument message, and the module whose \<open>find\<close> the callback calls
  (\<open>to_policies\<close> changes that module and nothing else).
\<close>

fun to_policies :: "event \<Rightarrow> event" where
  "to_policies (FindCalled (FindCall m realm id' t i)) =
     FindCalled (FindCall Policies realm id' t i)"
| "to_policies (ResolveWith (FindCall m realm id' t i)) =
     ResolveWith (FindCall Policies realm id' t i)"
| "to_policies e = e"

definition same_but_segment :: "request_opts \<Rightarrow> request_opts \<Rightarrow> bool" where
  "same_but_segment rq rq' =
     ((\<exists>base realm clientId subType record_id.
          url rq = spec_url base realm clientId ''permission'' subType record_id
          \<and> url rq' = spec_url base realm clientId ''policy'' subType record_id)
      \<and> auth rq = auth rq' \<and> body rq = body rq' \<and> method' rq = method' rq'
      \<and> json rq = json rq')"

definition module_variants :: "executor \<Rightarrow> executor \<Rightarrow> bool" where
  "module_variants ex ex' =
     (case (ex, ex') of
        (Finished es, Finished es') \<Rightarrow>
          (es = [Throw] \<and> es' = [Throw])
          \<or> (\<exists>rest. es = [Reject (JError (''permission'' @ rest))]
                    \<and> es' = [Reject (JError (''policy'' @ rest))])
      | (Requested rq cb, Requested rq' cb') \<Rightarrow>
          same_but_segment rq rq'
          \<and> (\<forall>err resp b. map to_policies (cb err resp b) = cb' err resp b)
      | _ \<Rightarrow> False)"

section \<open>Example inputs\<close>

text \<open>
  A credential holder in which every handle has logged in with the token \<open>tok\<close>, one
  in which no handle has an entry, a transport that answers every request alike, a
  client whose \<open>find\<close> promises fulfil with \<open>v\<close>, and the client handle of the test
  settings.
\<close>

definition stored_token :: "jsval \<Rightarrow> privates" where
  "stored_token tok client = JObj [(''accessToken'', tok)]"

definition no_entry :: privates where
  "no_entry client = JUndefined"

definition answers :: "jsval \<Rightarrow> int \<Rightarrow> jsval \<Rightarrow> transport" where
  "answers err code b req = (err, \<lparr> statusCode = code \<rparr>, b)"

definition find_yields :: "jsval \<Rightarrow> find_call \<Rightarrow> promise_state" where
  "find_yields v fc = Fulfilled v"

definition kc :: client where
  "kc = \<lparr> handle = 1, baseUrl = ''http://127.0.0.1:8080/auth'' \<rparr>"

section \<open>Auxiliary facts\<close>

lemmas module_defs =
  permissions_create_def permissions_find_def permissions_update_def permissions_remove_def
  policies_create_def policies_find_def policies_update_def policies_remove_def

lemmas callback_defs =
  permissions_create_callback_def permissions_find_callback_def
  permissions_update_callback_def permissions_remove_callback_def
  policies_create_callback_def policies_find_callback_def
  policies_update_callback_def policies_remove_callback_def

lemmas ready_defs = printable_def logged_in_def

lemmas example_defs = stored_token_def no_entry_def answers_def kc_def find_yields_def

text \<open>A read on a truthy value never throws.\<close>

lemma get_prop_None: "get_prop v k = None \<Longrightarrow> \<not> truthy v"
  by (cases v) auto

text \<open>An executor hands over a request exactly when its operation is ready.\<close>

lemma requested_iff_ready:
  "(\<exists>req cb. perform P c op = Requested req cb) = ready P c op"
proof (cases op)
  case (Create m realm id' rcd)
  then show ?thesis
    by (cases m) (auto simp: module_defs ready_defs split: option.splits)
next
  case (Find m realm id' record_type record_id)
  then show ?thesis
    by (cases m) (auto simp: module_defs ready_defs split: option.splits)
next
  case (Update m realm id' rcd)
  then show ?thesis
    by (cases m) (auto simp: module_defs ready_defs split: option.splits)
next
  case (Remove m realm id' record_id)
  then show ?thesis
    by (cases m) (auto simp: module_defs ready_defs split: option.splits)
qed

text \<open>Otherwise it rejects for the missing argument, or throws.\<close>

lemma not_ready_throws:
  assumes "required_present op" and "\<not> ready P c op"
  shows "perform P c op = Finished [Throw]"
proof (cases op)
  case (Create m realm id' rcd)
  with assms show ?thesis
    by (cases m) (auto simp: module_defs ready_defs split: option.splits dest: get_prop_None)
next
  case (Find m realm id' record_type record_id)
  with assms show ?thesis
    by (cases m) (auto simp: module_defs ready_defs split: option.splits if_splits)
next
  case (Update m realm id' rcd)
  with assms show ?thesis
    by (cases m) (auto simp: module_defs ready_defs split: option.splits dest: get_prop_None)
next
  case (Remove m realm id' record_id)
  with assms show ?thesis
    by (cases m) (auto simp: module_defs ready_defs split: option.splits)
qed

lemma not_required_rejects:
  assumes "\<not> required_present op"
  shows "\<exists>msg. perform P c op = Finished [Reject (JError msg)]"
proof (cases op)
  case (Create m realm id' rcd)
  with assms show ?thesis by (cases m) (auto simp: module_defs)
next
  case (Find m realm id' record_type record_id)
  with assms show ?thesis by simp
next
  case (Update m realm id' rcd)
  with assms show ?thesis by (cases m) (auto simp: module_defs)
next
  case (Remove m realm id' record_id)
  with assms show ?thesis by (cases m) (auto simp: module_defs)
qed

text \<open>An operation that is not ready makes no request.\<close>

lemma not_ready_no_request:
  assumes "\<not> ready P c op"
  shows "requests (run T (perform P c op)) = []"
proof (cases "required_present op")
  case True
  then have "perform P c op = Finished [Throw]" using assms by (rule not_ready_throws)
  then show ?thesis by (simp add: requests_def)
next
  case False
  then obtain msg where "perform P c op = Finished [Reject (JError msg)]"
    using not_required_rejects by blast
  then show ?thesis by (simp add: requests_def)
qed

text \<open>What the callback of each operation does with the transport's answer.\<close>

lemma callback_answer:
  assumes "perform P c op = Requested req cb"
  shows "cb err resp b =
    (if truthy err then [Reject err]
     else if statusCode resp \<noteq> success_code op then [Reject b]
     else case op of
       Create m realm id' rcd \<Rightarrow> [Resolve b]
     | Find m realm id' t i \<Rightarrow> [Resolve b]
     | Update m realm id' rcd \<Rightarrow>
         (case get_prop rcd Prop_type of
            None \<Rightarrow> [Uncaught]
          | Some t \<Rightarrow>
              (case get_prop rcd Prop_id of
                 None \<Rightarrow> [Uncaught]
               | Some i \<Rightarrow> [FindCalled (FindCall m realm id' t i),
                             ResolveWith (FindCall m realm id' t i)]))
     | Remove m realm id' i \<Rightarrow> [Resolve JUndefined])"
proof (cases op)
  case (Create m realm id' rcd)
  with assms show ?thesis
    by (cases m)
      (auto simp: module_defs callback_defs split: option.splits if_splits)
next
  case (Find m realm id' record_type record_id)
  with assms show ?thesis
    by (cases m)
      (auto simp: module_defs callback_defs split: option.splits if_splits)
next
  case (Update m realm id' rcd)
  with assms show ?thesis
    by (cases m)
      (auto simp: module_defs callback_defs split: option.splits if_splits)
next
  case (Remove m realm id' record_id)
  with assms show ?thesis
    by (cases m)
      (auto simp: module_defs callback_defs split: option.splits if_splits)
qed

lemma run_answer:
  assumes "perform P c op = Requested req cb" and "T req = (err, resp, b)"
  shows "run T (perform P c op) = Request req # cb err resp b"
  using assms by simp


text \<open>Every path of a callback calls exactly one of the two functions.\<close>

lemma callback_settles_once:
  assumes "perform P c op = Requested req cb"
  shows "settlements (cb err resp b) = 1"
proof (cases op)
  case (Create m realm id' rcd)
  with assms show ?thesis
    by (cases m)
      (auto simp: module_defs callback_defs settlements_def split: option.splits if_splits)
next
  case (Find m realm id' record_type record_id)
  with assms show ?thesis
    by (cases m)
      (auto simp: module_defs callback_defs settlements_def split: option.splits if_splits)
next
  case (Update m realm id' rcd)
  with assms show ?thesis
    by (cases m)
      (auto simp: module_defs callback_defs settlements_def split: option.splits if_splits)
next
  case (Remove m realm id' record_id)
  with assms show ?thesis
    by (cases m)
      (auto simp: module_defs callback_defs settlements_def split: option.splits if_splits)
qed

text \<open>The request each verb builds, written with the URL scheme.\<close>

lemma create_request:
  assumes "truthy rcd" and "get_prop rcd Prop_type = Some t" and "to_string t = Some ts"
    and "to_string realm = Some R" and "to_string id' = Some C"
    and "get_prop (P c) Prop_accessToken = Some tok"
  shows "perform P c (Create m realm id' rcd) =
    Requested
      \<lparr> url = spec_url (baseUrl c) R C (path_segment m) (Some ts) None,
        auth = \<lparr> bearer = tok \<rparr>, body = Some rcd, method' = Some ''POST'', json = True \<rparr>
      (case m of Permissions \<Rightarrow> permissions_create_callback
       | Policies \<Rightarrow> policies_create_callback)"
  using assms by (cases m) (simp_all add: module_defs spec_url_def)

lemma find_one_request:
  assumes "truthy i" and "truthy t" and "to_string t = Some ts" and "to_string i = Some ds"
    and "to_string realm = Some R" and "to_string id' = Some C"
    and "get_prop (P c) Prop_accessToken = Some tok"
  shows "perform P c (Find m realm id' t i) =
    Requested
      \<lparr> url = spec_url (baseUrl c) R C (path_segment m) (Some ts) (Some ds),
        auth = \<lparr> bearer = tok \<rparr>, body = None, method' = None, json = True \<rparr>
      (case m of Permissions \<Rightarrow> permissions_find_callback
       | Policies \<Rightarrow> policies_find_callback)"
  using assms by (cases m) (simp_all add: module_defs spec_url_def)

lemma find_list_request:
  assumes "\<not> (truthy i \<and> truthy t)"
    and "to_string realm = Some R" and "to_string id' = Some C"
    and "get_prop (P c) Prop_accessToken = Some tok"
  shows "perform P c (Find m realm id' t i) =
    Requested
      \<lparr> url = spec_url (baseUrl c) R C (path_segment m) None None,
        auth = \<lparr> bearer = tok \<rparr>, body = None, method' = None, json = True \<rparr>
      (case m of Permissions \<Rightarrow> permissions_find_callback
       | Policies \<Rightarrow> policies_find_callback)"
  using assms by (cases m) (auto simp: module_defs spec_url_def)

lemma update_request:
  assumes "truthy rcd" and "get_prop rcd Prop_type = Some t" and "get_prop rcd Prop_id = Some i"
    and "to_string t = Some ts" and "to_string i = Some ds"
    and "to_string realm = Some R" and "to_string id' = Some C"
    and "get_prop (P c) Prop_accessToken = Some tok"
  shows "perform P c (Update m realm id' rcd) =
    Requested
      \<lparr> url = spec_url (baseUrl c) R C (path_segment m) (Some ts) (Some ds),
        auth = \<lparr> bearer = tok \<rparr>, body = Some rcd, method' = Some ''PUT'', json = True \<rparr>
      (case m of Permissions \<Rightarrow> permissions_update_callback realm id' rcd
       | Policies \<Rightarrow> policies_update_callback realm id' rcd)"
  using assms by (cases m) (simp_all add: module_defs spec_url_def)

lemma remove_request:
  assumes "truthy i" and "to_string i = Some ds"
    and "to_string realm = Some R" and "to_string id' = Some C"
    and "get_prop (P c) Prop_accessToken = Some tok"
  shows "perform P c (Remove m realm id' i) =
    Requested
      \<lparr> url = spec_url (baseUrl c) R C (path_segment m) None (Some ds),
        auth = \<lparr> bearer = tok \<rparr>, body = None, method' = Some ''DELETE'', json = True \<rparr>
      (case m of Permissions \<Rightarrow> permissions_remove_callback
       | Policies \<Rightarrow> policies_remove_callback)"
  using assms by (cases m) (simp_all add: module_defs spec_url_def)

lemma same_but_segmentI:
  assumes "url rq = spec_url base R C ''permission'' sub rid"
    and "url rq' = spec_url base R C ''policy'' sub rid"
    and "auth rq = auth rq'" and "body rq = body rq'" and "method' rq = method' rq'"
    and "json rq = json rq'"
  shows "same_but_segment rq rq'"
  unfolding same_but_segment_def using assms by blast

lemma variants_throw: "module_variants (Finished [Throw]) (Finished [Throw])"
  by (simp add: module_variants_def)

lemma variants_missing:
  "module_variants (Finished [Reject (JError (''permission'' @ rest))])
     (Finished [Reject (JError (''policy'' @ rest))])"
  by (auto simp: module_variants_def)

lemma variants_requested:
  assumes "same_but_segment rq rq'"
    and "\<And>err resp b. map to_policies (cb err resp b) = cb' err resp b"
  shows "module_variants (Requested rq cb) (Requested rq' cb')"
  using assms by (simp add: module_variants_def)

section \<open>Update re-fetches the record\<close>

text \<open>
  C1. An \<open>update\<close> of either module makes its HTTP call exactly when it is ready
  (the record is present, the values of the URL convert to strings and the client has
  its credential entry); otherwise it makes no request. When the request is answered
  without error and with status 204, the callback calls the client's \<open>find\<close> of the
  same module exactly once, with the same realm and client id and with the type and id
  read from the record, and resolves the promise of the update with the promise that
  call returned, so it reaches whatever state \<open>F\<close> that promise reaches.
\<close>

theorem update_refetches_with_find:
  "(ready P c (Update m realm id' rcd) \<longrightarrow>
      (\<exists>req cb t i.
         perform P c (Update m realm id' rcd) = Requested req cb
         \<and> get_prop rcd Prop_type = Some t \<and> get_prop rcd Prop_id = Some i
         \<and> (\<forall>err resp b. T req = (err, resp, b) \<and> \<not> truthy err \<and> statusCode resp = 204 \<longrightarrow>
               run T (perform P c (Update m realm id' rcd)) =
                 [Request req, FindCalled (FindCall m realm id' t i),
                  ResolveWith (FindCall m realm id' t i)]
               \<and> find_calls (run T (perform P c (Update m realm id' rcd))) =
                 [FindCall m realm id' t i]
               \<and> settle F (run T (perform P c (Update m realm id' rcd))) =
                 F (FindCall m realm id' t i))))
   \<and> (\<not> ready P c (Update m realm id' rcd) \<longrightarrow>
        requests (run T (perform P c (Update m realm id' rcd))) = [])"
proof (intro conjI impI)
  assume r: "ready P c (Update m realm id' rcd)"
  then obtain req cb where rq: "perform P c (Update m realm id' rcd) = Requested req cb"
    using requested_iff_ready by blast
  from r obtain t i where ti: "get_prop rcd Prop_type = Some t" "get_prop rcd Prop_id = Some i"
    by (auto split: option.splits)
  have "run T (perform P c (Update m realm id' rcd)) =
          [Request req, FindCalled (FindCall m realm id' t i),
           ResolveWith (FindCall m realm id' t i)]
        \<and> find_calls (run T (perform P c (Update m realm id' rcd))) =
          [FindCall m realm id' t i]
        \<and> settle F (run T (perform P c (Update m realm id' rcd))) =
          F (FindCall m realm id' t i)"
    if "T req = (err, resp, b)" "\<not> truthy err" "statusCode resp = 204" for err resp b
    using that ti run_answer [where T = T, OF rq that(1)]
      callback_answer [OF rq, of err resp b]
    by (simp add: find_calls_def)
  with rq ti show "\<exists>req cb t i.
         perform P c (Update m realm id' rcd) = Requested req cb
         \<and> get_prop rcd Prop_type = Some t \<and> get_prop rcd Prop_id = Some i
         \<and> (\<forall>err resp b. T req = (err, resp, b) \<and> \<not> truthy err \<and> statusCode resp = 204 \<longrightarrow>
               run T (perform P c (Update m realm id' rcd)) =
                 [Request req, FindCalled (FindCall m realm id' t i),
                  ResolveWith (FindCall m realm id' t i)]
               \<and> find_calls (run T (perform P c (Update m realm id' rcd))) =
                 [FindCall m realm id' t i]
               \<and> settle F (run T (perform P c (Update m realm id' rcd))) =
                 F (FindCall m realm id' t i))"
    by blast
next
  assume "\<not> ready P c (Update m realm id' rcd)"
  then show "requests (run T (perform P c (Update m realm id' rcd))) = []"
    by (rule not_ready_no_request)
qed

theorem update_refetches_with_find_witness:
  "find_calls
     (run (answers JNull 204 JUndefined)
        (perform (stored_token (JStr ''token'')) kc
           (Update Permissions (JStr ''master'') (JStr ''c1'')
              (JObj [(''id'', JStr ''p1''), (''type'', JStr ''resource'')])))) =
     [FindCall Permissions (JStr ''master'') (JStr ''c1'') (JStr ''resource'') (JStr ''p1'')]
   \<and> settle (find_yields (JStr ''fetched''))
     (run (answers JNull 204 JUndefined)
        (perform (stored_token (JStr ''token'')) kc
           (Update Policies (JStr ''master'') (JStr ''c1'')
              (JObj [(''id'', JStr ''p1''), (''type'', JStr ''role'')])))) =
     Fulfilled (JStr ''fetched'')"
proof -
  have h1: "ready (stored_token (JStr ''token'')) kc
      (Update Permissions (JStr ''master'') (JStr ''c1'')
         (JObj [(''id'', JStr ''p1''), (''type'', JStr ''resource'')]))"
    by (simp add: ready_defs stored_token_def)
  have h2: "ready (stored_token (JStr ''token'')) kc
      (Update Policies (JStr ''master'') (JStr ''c1'')
         (JObj [(''id'', JStr ''p1''), (''type'', JStr ''role'')]))"
    by (simp add: ready_defs stored_token_def)
  note a = update_refetches_with_find
    [where P = "stored_token (JStr ''token'')" and c = kc and m = Permissions
       and realm = "JStr ''master''" and id' = "JStr ''c1''"
       and rcd = "JObj [(''id'', JStr ''p1''), (''type'', JStr ''resource'')]"
       and T = "answers JNull 204 JUndefined" and F = "find_yields (JStr ''fetched'')"]
  note b = update_refetches_with_find
    [where P = "stored_token (JStr ''token'')" and c = kc and m = Policies
       and realm = "JStr ''master''" and id' = "JStr ''c1''"
       and rcd = "JObj [(''id'', JStr ''p1''), (''type'', JStr ''role'')]"
       and T = "answers JNull 204 JUndefined" and F = "find_yields (JStr ''fetched'')"]
  from a b h1 h2 show ?thesis by (auto simp: answers_def find_yields_def)
qed

section \<open>Missing arguments\<close>

text \<open>
  C2. A \<open>create\<close> or an \<open>update\<close> whose record is absent (or any other falsy
  value), and a \<open>remove\<close> whose id is absent, end inside the executor with the one
  call \<open>reject(new Error('... is missing'))\<close>: the executor finishes by itself, whatever
  the credential holder and the client are, and builds and issues no request.
\<close>

theorem missing_argument_rejects_first:
  assumes "\<not> truthy arg"
  shows "perform P c (Create Permissions realm id' arg) =
           Finished [Reject (JError ''permission is missing'')]
       \<and> perform P c (Update Permissions realm id' arg) =
           Finished [Reject (JError ''permission is missing'')]
       \<and> perform P c (Remove Permissions realm id' arg) =
           Finished [Reject (JError ''permissionId is missing'')]
       \<and> perform P c (Create Policies realm id' arg) =
           Finished [Reject (JError ''policy is missing'')]
       \<and> perform P c (Update Policies realm id' arg) =
           Finished [Reject (JError ''policy is missing'')]
       \<and> perform P c (Remove Policies realm id' arg) =
           Finished [Reject (JError ''policyId is missing'')]
       \<and> (\<forall>op \<in> {Create Permissions realm id' arg, Update Permissions realm id' arg,
                    Remove Permissions realm id' arg, Create Policies realm id' arg,
                    Update Policies realm id' arg, Remove Policies realm id' arg}.
             requests (run T (perform P c op)) = []
             \<and> (\<exists>m. settle F (run T (perform P c op)) = Rejected (JError m)))"
  using assms by (simp add: module_defs requests_def)

theorem missing_argument_rejects_first_witness:
  "perform (stored_token (JStr ''token'')) kc
     (Create Permissions (JStr ''master'') (JStr ''c1'') JUndefined) =
     Finished [Reject (JError ''permission is missing'')]
   \<and> perform (stored_token (JStr ''token'')) kc
     (Remove Policies (JStr ''master'') (JStr ''c1'') JUndefined) =
     Finished [Reject (JError ''policyId is missing'')]
   \<and> requests (run (answers JNull 204 JUndefined)
        (perform (stored_token (JStr ''token'')) kc
           (Update Policies (JStr ''master'') (JStr ''c1'') JUndefined))) = []"
proof -
  have h: "\<not> truthy JUndefined" by simp
  from missing_argument_rejects_first [OF h] show ?thesis by blast
qed

section \<open>Status codes\<close>

text \<open>
  C3, as the code has it. An operation makes its HTTP call exactly when it is ready;
  otherwise it makes no request. When the request is answered without error, every
  status other than the verb's success code (201 for create, 200 for find, 204 for
  update and remove) rejects the promise with the response body. On the success code,
  create and find resolve with the response body, remove resolves with \<open>undefined\<close>,
  and update resolves with the promise of the client's \<open>find\<close> for the record's type
  and id.
\<close>

theorem status_code_decides_outcome:
  "(ready P c op \<longrightarrow>
      (\<exists>req cb.
         perform P c op = Requested req cb
         \<and> (\<forall>err resp b. T req = (err, resp, b) \<and> \<not> truthy err \<longrightarrow>
               (statusCode resp \<noteq> success_code op \<longrightarrow>
                  run T (perform P c op) = [Request req, Reject b]
                  \<and> settle F (run T (perform P c op)) = Rejected b)
               \<and> (statusCode resp = success_code op \<longrightarrow>
                    (case op of
                       Create m realm id' rcd \<Rightarrow>
                         settle F (run T (perform P c op)) = Fulfilled b
                     | Find m realm id' t i \<Rightarrow>
                         settle F (run T (perform P c op)) = Fulfilled b
                     | Update m realm id' rcd \<Rightarrow>
                         (\<exists>t i. get_prop rcd Prop_type = Some t
                            \<and> get_prop rcd Prop_id = Some i
                            \<and> settle F (run T (perform P c op)) =
                                F (FindCall m realm id' t i))
                     | Remove m realm id' i \<Rightarrow>
                         settle F (run T (perform P c op)) = Fulfilled JUndefined)))))
   \<and> (\<not> ready P c op \<longrightarrow> requests (run T (perform P c op)) = [])"
proof (intro conjI impI)
  assume r: "ready P c op"
  then obtain req cb where rq: "perform P c op = Requested req cb"
    using requested_iff_ready by blast
  have "(statusCode resp \<noteq> success_code op \<longrightarrow>
           run T (perform P c op) = [Request req, Reject b]
           \<and> settle F (run T (perform P c op)) = Rejected b)
        \<and> (statusCode resp = success_code op \<longrightarrow>
             (case op of
                Create m realm id' rcd \<Rightarrow> settle F (run T (perform P c op)) = Fulfilled b
              | Find m realm id' t i \<Rightarrow> settle F (run T (perform P c op)) = Fulfilled b
              | Update m realm id' rcd \<Rightarrow>
                  (\<exists>t i. get_prop rcd Prop_type = Some t \<and> get_prop rcd Prop_id = Some i
                     \<and> settle F (run T (perform P c op)) = F (FindCall m realm id' t i))
              | Remove m realm id' i \<Rightarrow>
                  settle F (run T (perform P c op)) = Fulfilled JUndefined))"
    if "T req = (err, resp, b)" "\<not> truthy err" for err resp b
    using that r run_answer [where T = T, OF rq that(1)]
      callback_answer [OF rq, of err resp b]
    by (cases op) (auto split: option.splits)
  with rq show "\<exists>req cb.
         perform P c op = Requested req cb
         \<and> (\<forall>err resp b. T req = (err, resp, b) \<and> \<not> truthy err \<longrightarrow>
               (statusCode resp \<noteq> success_code op \<longrightarrow>
                  run T (perform P c op) = [Request req, Reject b]
                  \<and> settle F (run T (perform P c op)) = Rejected b)
               \<and> (statusCode resp = success_code op \<longrightarrow>
                    (case op of
                       Create m realm id' rcd \<Rightarrow>
                         settle F (run T (perform P c op)) = Fulfilled b
                     | Find m realm id' t i \<Rightarrow>
                         settle F (run T (perform P c op)) = Fulfilled b
                     | Update m realm id' rcd \<Rightarrow>
                         (\<exists>t i. get_prop rcd Prop_type = Some t
                            \<and> get_prop rcd Prop_id = Some i
                            \<and> settle F (run T (perform P c op)) =
                                F (FindCall m realm id' t i))
                     | Remove m realm id' i \<Rightarrow>
                         settle F (run T (perform P c op)) = Fulfilled JUndefined)))"
    by blast
next
  assume "\<not> ready P c op"
  then show "requests (run T (perform P c op)) = []" by (rule not_ready_no_request)
qed

theorem status_code_decides_outcome_witness:
  "settle (find_yields JNull)
     (run (answers JNull 201 (JObj [(''id'', JStr ''p1'')]))
        (perform (stored_token (JStr ''token'')) kc
           (Create Permissions (JStr ''master'') (JStr ''c1'')
              (JObj [(''type'', JStr ''resource'')])))) =
     Fulfilled (JObj [(''id'', JStr ''p1'')])
   \<and> settle (find_yields JNull)
     (run (answers JNull 409 (JStr ''conflict''))
        (perform (stored_token (JStr ''token'')) kc
           (Create Policies (JStr ''master'') (JStr ''c1'')
              (JObj [(''type'', JStr ''role'')])))) =
     Rejected (JStr ''conflict'')"
proof -
  have h1: "ready (stored_token (JStr ''token'')) kc
      (Create Permissions (JStr ''master'') (JStr ''c1'') (JObj [(''type'', JStr ''resource'')]))"
    by (simp add: ready_defs stored_token_def)
  have h2: "ready (stored_token (JStr ''token'')) kc
      (Create Policies (JStr ''master'') (JStr ''c1'') (JObj [(''type'', JStr ''role'')]))"
    by (simp add: ready_defs stored_token_def)
  note a = status_code_decides_outcome
    [where P = "stored_token (JStr ''token'')" and c = kc
       and op = "Create Permissions (JStr ''master'') (JStr ''c1'')
                   (JObj [(''type'', JStr ''resource'')])"
       and T = "answers JNull 201 (JObj [(''id'', JStr ''p1'')])" and F = "find_yields JNull"]
  note b = status_code_decides_outcome
    [where P = "stored_token (JStr ''token'')" and c = kc
       and op = "Create Policies (JStr ''master'') (JStr ''c1'')
                   (JObj [(''type'', JStr ''role'')])"
       and T = "answers JNull 409 (JStr ''conflict'')" and F = "find_yields JNull"]
  from a b h1 h2 show ?thesis by (auto simp: answers_def)
qed

text \<open>
  The statement that every verb resolves with the response body on its success code
  fails for update and for remove. An update answered with status 204 and no body,
  on a client whose \<open>find\<close> yields the stored record, is fulfilled with that record
  and not with the (undefined) body; a remove answered with status 204 and the body
  \<open>'deleted'\<close> is fulfilled with \<open>undefined\<close>.
\<close>

theorem success_without_response_body:
  "success_code
     (Update Permissions (JStr ''master'') (JStr ''c1'')
        (JObj [(''id'', JStr ''p1''), (''type'', JStr ''resource'')])) = 204
   \<and> settle (find_yields (JObj [(''id'', JStr ''p1''), (''name'', JStr ''stored'')]))
     (run (answers JNull 204 JUndefined)
        (perform (stored_token (JStr ''token'')) kc
           (Update Permissions (JStr ''master'') (JStr ''c1'')
              (JObj [(''id'', JStr ''p1''), (''type'', JStr ''resource'')])))) =
     Fulfilled (JObj [(''id'', JStr ''p1''), (''name'', JStr ''stored'')])
   \<and> settle (find_yields (JObj [(''id'', JStr ''p1''), (''name'', JStr ''stored'')]))
     (run (answers JNull 204 JUndefined)
        (perform (stored_token (JStr ''token'')) kc
           (Update Permissions (JStr ''master'') (JStr ''c1'')
              (JObj [(''id'', JStr ''p1''), (''type'', JStr ''resource'')])))) \<noteq>
     Fulfilled JUndefined
   \<and> success_code (Remove Permissions (JStr ''master'') (JStr ''c1'') (JStr ''p1'')) = 204
   \<and> settle (find_yields JNull)
     (run (answers JNull 204 (JStr ''deleted''))
        (perform (stored_token (JStr ''token'')) kc
           (Remove Permissions (JStr ''master'') (JStr ''c1'') (JStr ''p1'')))) =
     Fulfilled JUndefined
   \<and> settle (find_yields JNull)
     (run (answers JNull 204 (JStr ''deleted''))
        (perform (stored_token (JStr ''token'')) kc
           (Remove Permissions (JStr ''master'') (JStr ''c1'') (JStr ''p1'')))) \<noteq>
     Fulfilled (JStr ''deleted'')"
  by (simp add: permissions_update_def permissions_update_callback_def
      permissions_remove_def permissions_remove_callback_def example_defs)

section \<open>Remove resolves with no value\<close>

text \<open>
  C4. A \<open>remove\<close> of either module makes its HTTP call exactly when it is ready (the
  id is provided, the values of the URL convert to strings and the client has its
  credential entry); otherwise it makes no request. When the request is answered
  without error and with status 204, the callback calls \<open>resolve()\<close> with no
  argument: the promise is fulfilled with \<open>undefined\<close>, whatever the response body
  is.
\<close>

theorem remove_resolves_with_undefined:
  "(ready P c (Remove m realm id' record_id) \<longrightarrow>
      (\<exists>req cb.
         perform P c (Remove m realm id' record_id) = Requested req cb
         \<and> (\<forall>err resp b. T req = (err, resp, b) \<and> \<not> truthy err \<and> statusCode resp = 204 \<longrightarrow>
               run T (perform P c (Remove m realm id' record_id)) =
                 [Request req, Resolve JUndefined]
               \<and> settle F (run T (perform P c (Remove m realm id' record_id))) =
                 Fulfilled JUndefined)))
   \<and> (\<not> ready P c (Remove m realm id' record_id) \<longrightarrow>
        requests (run T (perform P c (Remove m realm id' record_id))) = [])"
proof (intro conjI impI)
  assume "ready P c (Remove m realm id' record_id)"
  then obtain req cb where
    rq: "perform P c (Remove m realm id' record_id) = Requested req cb"
    using requested_iff_ready by blast
  have "run T (perform P c (Remove m realm id' record_id)) = [Request req, Resolve JUndefined]
        \<and> settle F (run T (perform P c (Remove m realm id' record_id))) = Fulfilled JUndefined"
    if "T req = (err, resp, b)" "\<not> truthy err" "statusCode resp = 204" for err resp b
    using that run_answer [where T = T, OF rq that(1)]
      callback_answer [OF rq, of err resp b]
    by simp
  with rq show "\<exists>req cb.
         perform P c (Remove m realm id' record_id) = Requested req cb
         \<and> (\<forall>err resp b. T req = (err, resp, b) \<and> \<not> truthy err \<and> statusCode resp = 204 \<longrightarrow>
               run T (perform P c (Remove m realm id' record_id)) =
                 [Request req, Resolve JUndefined]
               \<and> settle F (run T (perform P c (Remove m realm id' record_id))) =
                 Fulfilled JUndefined)"
    by blast
next
  assume "\<not> ready P c (Remove m realm id' record_id)"
  then show "requests (run T (perform P c (Remove m realm id' record_id))) = []"
    by (rule not_ready_no_request)
qed

theorem remove_resolves_with_undefined_witness:
  "settle (find_yields JNull)
     (run (answers JNull 204 (JStr ''ignored''))
        (perform (stored_token (JStr ''token'')) kc
           (Remove Policies (JStr ''master'') (JStr ''c1'') (JStr ''p1'')))) =
     Fulfilled JUndefined
   \<and> settle (find_yields JNull)
     (run (answers JNull 204 JUndefined)
        (perform (stored_token (JStr ''token'')) kc
           (Remove Permissions (JStr ''master'') (JStr ''c1'') (JStr ''p1'')))) =
     Fulfilled JUndefined"
proof -
  have h1: "ready (stored_token (JStr ''token'')) kc
      (Remove Policies (JStr ''master'') (JStr ''c1'') (JStr ''p1''))"
    by (simp add: ready_defs stored_token_def)
  have h2: "ready (stored_token (JStr ''token'')) kc
      (Remove Permissions (JStr ''master'') (JStr ''c1'') (JStr ''p1''))"
    by (simp add: ready_defs stored_token_def)
  note a = remove_resolves_with_undefined
    [where P = "stored_token (JStr ''token'')" and c = kc and m = Policies
       and realm = "JStr ''master''" and id' = "JStr ''c1''" and record_id = "JStr ''p1''"
       and T = "answers JNull 204 (JStr ''ignored'')" and F = "find_yields JNull"]
  note b = remove_resolves_with_undefined
    [where P = "stored_token (JStr ''token'')" and c = kc and m = Permissions
       and realm = "JStr ''master''" and id' = "JStr ''c1''" and record_id = "JStr ''p1''"
       and T = "answers JNull 204 JUndefined" and F = "find_yields JNull"]
  from a b h1 h2 show ?thesis by (auto simp: answers_def)
qed

section \<open>Transport errors\<close>

text \<open>
  C5. An operation makes its HTTP call exactly when it is ready; otherwise it makes no
  request. When the transport answers the request with an error (a truthy \<open>err\<close>),
  the callback calls \<open>reject(err)\<close> and nothing else: the promise is rejected with
  the transport's error itself, and the request stays the only one made.
\<close>

theorem transport_error_propagates:
  "(ready P c op \<longrightarrow>
      (\<exists>req cb.
         perform P c op = Requested req cb
         \<and> (\<forall>err resp b. T req = (err, resp, b) \<and> truthy err \<longrightarrow>
               run T (perform P c op) = [Request req, Reject err]
               \<and> requests (run T (perform P c op)) = [req]
               \<and> settle F (run T (perform P c op)) = Rejected err)))
   \<and> (\<not> ready P c op \<longrightarrow> requests (run T (perform P c op)) = [])"
proof (intro conjI impI)
  assume "ready P c op"
  then obtain req cb where rq: "perform P c op = Requested req cb"
    using requested_iff_ready by blast
  have "run T (perform P c op) = [Request req, Reject err]
        \<and> requests (run T (perform P c op)) = [req]
        \<and> settle F (run T (perform P c op)) = Rejected err"
    if "T req = (err, resp, b)" "truthy err" for err resp b
    using that run_answer [where T = T, OF rq that(1)]
      callback_answer [OF rq, of err resp b]
    by (simp add: requests_def)
  with rq show "\<exists>req cb.
         perform P c op = Requested req cb
         \<and> (\<forall>err resp b. T req = (err, resp, b) \<and> truthy err \<longrightarrow>
               run T (perform P c op) = [Request req, Reject err]
               \<and> requests (run T (perform P c op)) = [req]
               \<and> settle F (run T (perform P c op)) = Rejected err)"
    by blast
next
  assume "\<not> ready P c op"
  then show "requests (run T (perform P c op)) = []" by (rule not_ready_no_request)
qed

theorem transport_error_propagates_witness:
  "settle (find_yields JNull)
     (run (answers (JError ''connect ECONNREFUSED'') 0 JUndefined)
        (perform (stored_token (JStr ''token'')) kc
           (Find Permissions (JStr ''master'') (JStr ''c1'') JUndefined JUndefined))) =
     Rejected (JError ''connect ECONNREFUSED'')
   \<and> settle (find_yields JNull)
     (run (answers (JError ''socket hang up'') 0 JUndefined)
        (perform (stored_token (JStr ''token'')) kc
           (Update Policies (JStr ''master'') (JStr ''c1'')
              (JObj [(''id'', JStr ''p1''), (''type'', JStr ''role'')])))) =
     Rejected (JError ''socket hang up'')"
proof -
  have h1: "ready (stored_token (JStr ''token'')) kc
      (Find Permissions (JStr ''master'') (JStr ''c1'') JUndefined JUndefined)"
    by (simp add: ready_defs stored_token_def)
  have h2: "ready (stored_token (JStr ''token'')) kc
      (Update Policies (JStr ''master'') (JStr ''c1'')
         (JObj [(''id'', JStr ''p1''), (''type'', JStr ''role'')]))"
    by (simp add: ready_defs stored_token_def)
  note a = transport_error_propagates
    [where P = "stored_token (JStr ''token'')" and c = kc
       and op = "Find Permissions (JStr ''master'') (JStr ''c1'') JUndefined JUndefined"
       and T = "answers (JError ''connect ECONNREFUSED'') 0 JUndefined"
       and F = "find_yields JNull"]
  note b = transport_error_propagates
    [where P = "stored_token (JStr ''token'')" and c = kc
       and op = "Update Policies (JStr ''master'') (JStr ''c1'')
                   (JObj [(''id'', JStr ''p1''), (''type'', JStr ''role'')])"
       and T = "answers (JError ''socket hang up'') 0 JUndefined"
       and F = "find_yields JNull"]
  from a b h1 h2 show ?thesis by (auto simp: answers_def)
qed

section \<open>Request URLs\<close>

text \<open>
  C6. When realm and client id convert to strings and the client has its credential
  entry, every operation with its required argument builds and issues a request whose
  URL is an instance of
  \<open>{baseUrl}/admin/realms/{realm}/clients/{clientId}/authz/resource-server/{resource-type}[/{subType}][/{id}]\<close>
  with the module's resource type: create appends the record's type, find appends the
  type and the id when both are truthy and nothing otherwise, update appends the
  record's type and id, and remove appends the id alone. An operation that is not ready
  builds no request.
\<close>

theorem request_url_follows_pattern:
  "(to_string realm = Some R \<and> to_string id' = Some C
      \<and> get_prop (P c) Prop_accessToken = Some tok \<longrightarrow>
      (truthy rcd \<and> get_prop rcd Prop_type = Some t \<and> to_string t = Some ts \<longrightarrow>
         (\<exists>req cb. perform P c (Create m realm id' rcd) = Requested req cb
            \<and> url req = spec_url (baseUrl c) R C (path_segment m) (Some ts) None))
      \<and> (truthy i \<and> truthy t \<and> to_string t = Some ts \<and> to_string i = Some ds \<longrightarrow>
         (\<exists>req cb. perform P c (Find m realm id' t i) = Requested req cb
            \<and> url req = spec_url (baseUrl c) R C (path_segment m) (Some ts) (Some ds)))
      \<and> (\<not> (truthy i \<and> truthy t) \<longrightarrow>
         (\<exists>req cb. perform P c (Find m realm id' t i) = Requested req cb
            \<and> url req = spec_url (baseUrl c) R C (path_segment m) None None))
      \<and> (truthy rcd \<and> get_prop rcd Prop_type = Some t \<and> get_prop rcd Prop_id = Some i
           \<and> to_string t = Some ts \<and> to_string i = Some ds \<longrightarrow>
         (\<exists>req cb. perform P c (Update m realm id' rcd) = Requested req cb
            \<and> url req = spec_url (baseUrl c) R C (path_segment m) (Some ts) (Some ds)))
      \<and> (truthy i \<and> to_string i = Some ds \<longrightarrow>
         (\<exists>req cb. perform P c (Remove m realm id' i) = Requested req cb
            \<and> url req = spec_url (baseUrl c) R C (path_segment m) None (Some ds))))
   \<and> (\<not> ready P c op \<longrightarrow> requests (run T (perform P c op)) = [])"
  using create_request [of rcd t ts realm R id' C P c tok m]
    find_one_request [of i t ts ds realm R id' C P c tok m]
    find_list_request [of i t realm R id' C P c tok m]
    update_request [of rcd t i ts ds realm R id' C P c tok m]
    remove_request [of i ds realm R id' C P c tok m]
    not_ready_no_request [of P c op T]
  by simp

theorem request_url_follows_pattern_witness:
  "(\<exists>req cb. perform (stored_token (JStr ''token'')) kc
       (Find Policies (JStr ''master'') (JStr ''c1'') (JStr ''role'') (JStr ''p1'')) =
       Requested req cb
     \<and> url req =
       ''http://127.0.0.1:8080/auth/admin/realms/master/clients/c1/authz/resource-server/policy/role/p1'')
   \<and> (\<exists>req cb. perform (stored_token (JStr ''token'')) kc
       (Remove Permissions (JStr ''master'') (JNum ''1e+21'') (JNum ''1152921504606847000'')) =
       Requested req cb
     \<and> url req =
       ''http://127.0.0.1:8080/auth/admin/realms/master/clients/1e+21/authz/resource-server/permission/1152921504606847000'')"
proof -
  have tok: "get_prop (stored_token (JStr ''token'') kc) Prop_accessToken = Some (JStr ''token'')"
    by (simp add: stored_token_def)
  have r: "to_string (JStr ''master'') = Some ''master''" by simp
  have c1: "to_string (JStr ''c1'') = Some ''c1''" by simp
  have c2: "to_string (JNum ''1e+21'') = Some ''1e+21''" by simp
  note a = request_url_follows_pattern
    [where P = "stored_token (JStr ''token'')" and c = kc and m = Policies
       and realm = "JStr ''master''" and id' = "JStr ''c1''" and R = "''master''"
       and C = "''c1''" and tok = "JStr ''token''"
       and t = "JStr ''role''" and i = "JStr ''p1''" and ts = "''role''" and ds = "''p1''"]
  note b = request_url_follows_pattern
    [where P = "stored_token (JStr ''token'')" and c = kc and m = Permissions
       and realm = "JStr ''master''" and id' = "JNum ''1e+21''" and R = "''master''"
       and C = "''1e+21''" and tok = "JStr ''token''"
       and i = "JNum ''1152921504606847000''" and ds = "''1152921504606847000''"]
  from a b tok r c1 c2 show ?thesis by (simp add: spec_url_def kc_def)
qed

section \<open>One settlement\<close>

text \<open>
  C7, as the code has it. No operation calls \<open>resolve\<close> or \<open>reject\<close> twice. An
  operation calls exactly one of them, once, in its executor and callback together,
  unless its executor throws a TypeError: with the required argument present, that
  happens exactly when the operation is not ready (a value of the URL does not convert
  to a string, or the client has no credential entry). Then the code calls neither
  function, and the trace is the throw alone; the promise constructor rejects the
  promise.
\<close>

theorem operation_settles_once:
  "settlements (run T (perform P c op)) =
     (if required_present op \<and> \<not> ready P c op then 0 else 1)
   \<and> (run T (perform P c op) = [Throw]) = (required_present op \<and> \<not> ready P c op)"
proof (cases "required_present op")
  case False
  then obtain msg where "perform P c op = Finished [Reject (JError msg)]"
    using not_required_rejects by blast
  with False show ?thesis by (simp add: settlements_def)
next
  case True
  show ?thesis
  proof (cases "ready P c op")
    case False
    with True have "perform P c op = Finished [Throw]" by (rule not_ready_throws)
    with True False show ?thesis by (simp add: settlements_def)
  next
    case ready: True
    then obtain req cb where rq: "perform P c op = Requested req cb"
      using requested_iff_ready by blast
    obtain err resp b where t: "T req = (err, resp, b)" by (cases "T req")
    have one: "settlements (cb err resp b) = 1" using rq by (rule callback_settles_once)
    then have "cb err resp b \<noteq> []" by (auto simp: settlements_def)
    with one ready True rq t show ?thesis by (auto simp: settlements_def)
  qed
qed

theorem operation_settles_once_witness:
  "settlements
     (run (answers JNull 204 JUndefined)
        (perform (stored_token (JStr ''token'')) kc
           (Update Policies (JStr ''master'') (JStr ''c1'')
              (JObj [(''id'', JStr ''p1''), (''type'', JStr ''role'')])))) = 1
   \<and> settlements
     (run (answers JNull 500 JUndefined)
        (perform (stored_token (JStr ''token'')) kc
           (Create Permissions (JStr ''master'') (JStr ''c1'') JNull))) = 1"
proof -
  note a = operation_settles_once
    [where T = "answers JNull 204 JUndefined" and P = "stored_token (JStr ''token'')"
       and c = kc
       and op = "Update Policies (JStr ''master'') (JStr ''c1'')
                   (JObj [(''id'', JStr ''p1''), (''type'', JStr ''role'')])"]
  note b = operation_settles_once
    [where T = "answers JNull 500 JUndefined" and P = "stored_token (JStr ''token'')"
       and c = kc and op = "Create Permissions (JStr ''master'') (JStr ''c1'') JNull"]
  from a b show ?thesis by (simp add: ready_defs stored_token_def)
qed

text \<open>
  The statement that every operation calls one of the two functions on every argument
  fails where the executor throws. A \<open>find\<close> whose realm is the object
  \<open>{toString: 'x'}\<close> throws while it builds the URL, and a \<open>remove\<close> on a client
  without a credential entry throws while it reads the token: neither calls
  \<open>resolve\<close> or \<open>reject\<close>.
\<close>

theorem throwing_executor_settles_nothing:
  "run (answers JNull 200 JUndefined)
     (perform (stored_token (JStr ''token'')) kc
        (Find Permissions (JObj [(''toString'', JStr ''x'')]) (JStr ''c1'')
           JUndefined JUndefined)) = [Throw]
   \<and> settlements
     (run (answers JNull 200 JUndefined)
        (perform (stored_token (JStr ''token'')) kc
           (Find Permissions (JObj [(''toString'', JStr ''x'')]) (JStr ''c1'')
              JUndefined JUndefined))) = 0
   \<and> settlements
     (run (answers JNull 204 JUndefined)
        (perform no_entry kc
           (Remove Policies (JStr ''master'') (JStr ''c1'') (JStr ''p1'')))) = 0"
  by (simp add: permissions_find_def policies_remove_def settlements_def example_defs)

section \<open>The two modules\<close>

text \<open>
  C8, as the code has it. On the same arguments, each function of the permissions
  module and the function of the same name of the policies module do the same thing up
  to three differences: the resource-type segment of the request URL (\<open>permission\<close>
  or \<open>policy\<close>), the argument name at the head of the missing-argument message, and
  the module whose \<open>find\<close> the callback of \<open>update\<close> calls (each module calls its
  own). Both throw or both reject for the missing argument or both issue a request; the
  requests agree in every other field, and the callbacks of create, find and remove are
  equal.
\<close>

theorem modules_differ_in_three_places:
  "module_variants (permissions_create P c realm id' rcd) (policies_create P c realm id' rcd)
   \<and> module_variants (permissions_find P c realm id' t i) (policies_find P c realm id' t i)
   \<and> module_variants (permissions_update P c realm id' rcd) (policies_update P c realm id' rcd)
   \<and> module_variants (permissions_remove P c realm id' i) (policies_remove P c realm id' i)
   \<and> permissions_create_callback = policies_create_callback
   \<and> permissions_find_callback = policies_find_callback
   \<and> permissions_remove_callback = policies_remove_callback"
proof -
  have cbs: "permissions_create_callback = policies_create_callback"
    "permissions_find_callback = policies_find_callback"
    "permissions_remove_callback = policies_remove_callback"
    by (intro ext, simp add: callback_defs)+
  have plain: "map to_policies (permissions_create_callback err resp b) =
      policies_create_callback err resp b"
    "map to_policies (permissions_find_callback err resp b) =
      policies_find_callback err resp b"
    "map to_policies (permissions_remove_callback err resp b) =
      policies_remove_callback err resp b"
    "map to_policies (permissions_update_callback realm id' rcd err resp b) =
      policies_update_callback realm id' rcd err resp b" for err resp b
    by (simp_all add: callback_defs split: option.splits)
  have create: "module_variants (permissions_create P c realm id' rcd)
      (policies_create P c realm id' rcd)"
  proof -
    let ?p = "Create Permissions realm id' rcd" and ?q = "Create Policies realm id' rcd"
    consider (missing) "\<not> truthy rcd" | (throws) "truthy rcd" "\<not> ready P c ?p"
      | (ok) "ready P c ?p" by blast
    then show ?thesis
    proof cases
      case missing
      then show ?thesis
        using variants_missing [of "'' is missing''"] by (simp add: module_defs)
    next
      case throws
      from throws(1) have rp: "required_present ?p" "required_present ?q" by simp_all
      from throws(2) have nq: "\<not> ready P c ?q" by simp
      have "perform P c ?p = Finished [Throw]" by (rule not_ready_throws [OF rp(1) throws(2)])
      moreover
      have "perform P c ?q = Finished [Throw]" by (rule not_ready_throws [OF rp(2) nq])
      ultimately show ?thesis using variants_throw by simp
    next
      case ok
      then obtain t ts R C tok where h: "truthy rcd" "get_prop rcd Prop_type = Some t"
        "to_string t = Some ts" "to_string realm = Some R" "to_string id' = Some C"
        "get_prop (P c) Prop_accessToken = Some tok"
        by (auto simp: ready_defs split: option.splits)
      show ?thesis
        using create_request [where P = P and c = c and m = Permissions, OF h]
          create_request [where P = P and c = c and m = Policies, OF h] plain
        by (auto intro!: variants_requested same_but_segmentI)
    qed
  qed
  have find: "module_variants (permissions_find P c realm id' t i)
      (policies_find P c realm id' t i)"
  proof -
    let ?p = "Find Permissions realm id' t i" and ?q = "Find Policies realm id' t i"
    show ?thesis
    proof (cases "ready P c ?p")
      case False
      have rp: "required_present ?p" "required_present ?q" by simp_all
      from False have nq: "\<not> ready P c ?q" by simp
      have "perform P c ?p = Finished [Throw]" by (rule not_ready_throws [OF rp(1) False])
      moreover
      have "perform P c ?q = Finished [Throw]" by (rule not_ready_throws [OF rp(2) nq])
      ultimately show ?thesis using variants_throw by simp
    next
      case True
      then obtain R C tok where h: "to_string realm = Some R" "to_string id' = Some C"
        "get_prop (P c) Prop_accessToken = Some tok"
        by (auto simp: ready_defs)
      show ?thesis
      proof (cases "truthy i \<and> truthy t")
        case both: True
        with True obtain ts ds where p: "to_string t = Some ts" "to_string i = Some ds"
          by (auto simp: ready_defs)
        from both have ti: "truthy i" "truthy t" by simp_all
        show ?thesis
          using find_one_request [where P = P and c = c and m = Permissions, OF ti p h]
            find_one_request [where P = P and c = c and m = Policies, OF ti p h] plain
          by (auto intro!: variants_requested same_but_segmentI)
      next
        case False
        show ?thesis
          using find_list_request [where P = P and c = c and m = Permissions, OF False h]
            find_list_request [where P = P and c = c and m = Policies, OF False h] plain
          by (auto intro!: variants_requested same_but_segmentI)
      qed
    qed
  qed
  have update: "module_variants (permissions_update P c realm id' rcd)
      (policies_update P c realm id' rcd)"
  proof -
    let ?p = "Update Permissions realm id' rcd" and ?q = "Update Policies realm id' rcd"
    consider (missing) "\<not> truthy rcd" | (throws) "truthy rcd" "\<not> ready P c ?p"
      | (ok) "ready P c ?p" by blast
    then show ?thesis
    proof cases
      case missing
      then show ?thesis
        using variants_missing [of "'' is missing''"] by (simp add: module_defs)
    next
      case throws
      from throws(1) have rp: "required_present ?p" "required_present ?q" by simp_all
      from throws(2) have nq: "\<not> ready P c ?q" by simp
      have "perform P c ?p = Finished [Throw]" by (rule not_ready_throws [OF rp(1) throws(2)])
      moreover
      have "perform P c ?q = Finished [Throw]" by (rule not_ready_throws [OF rp(2) nq])
      ultimately show ?thesis using variants_throw by simp
    next
      case ok
      then obtain t' i' ts ds R C tok where h: "truthy rcd" "get_prop rcd Prop_type = Some t'"
        "get_prop rcd Prop_id = Some i'" "to_string t' = Some ts" "to_string i' = Some ds"
        "to_string realm = Some R" "to_string id' = Some C"
        "get_prop (P c) Prop_accessToken = Some tok"
        by (auto simp: ready_defs split: option.splits)
      show ?thesis
        using update_request [where P = P and c = c and m = Permissions, OF h]
          update_request [where P = P and c = c and m = Policies, OF h] plain
        by (auto intro!: variants_requested same_but_segmentI)
    qed
  qed
  have remove: "module_variants (permissions_remove P c realm id' i)
      (policies_remove P c realm id' i)"
  proof -
    let ?p = "Remove Permissions realm id' i" and ?q = "Remove Policies realm id' i"
    consider (missing) "\<not> truthy i" | (throws) "truthy i" "\<not> ready P c ?p"
      | (ok) "ready P c ?p" by blast
    then show ?thesis
    proof cases
      case missing
      then show ?thesis
        using variants_missing [of "''Id is missing''"] by (simp add: module_defs)
    next
      case throws
      from throws(1) have rp: "required_present ?p" "required_present ?q" by simp_all
      from throws(2) have nq: "\<not> ready P c ?q" by simp
      have "perform P c ?p = Finished [Throw]" by (rule not_ready_throws [OF rp(1) throws(2)])
      moreover
      have "perform P c ?q = Finished [Throw]" by (rule not_ready_throws [OF rp(2) nq])
      ultimately show ?thesis using variants_throw by simp
    next
      case ok
      then obtain ds R C tok where h: "truthy i" "to_string i = Some ds"
        "to_string realm = Some R" "to_string id' = Some C"
        "get_prop (P c) Prop_accessToken = Some tok"
        by (auto simp: ready_defs)
      show ?thesis
        using remove_request [where P = P and c = c and m = Permissions, OF h]
          remove_request [where P = P and c = c and m = Policies, OF h] plain
        by (auto intro!: variants_requested same_but_segmentI)
    qed
  qed
  from create find update remove cbs show ?thesis by blast
qed

text \<open>
  The statement that the modules differ in the path segment and the argument name only
  fails for update: answered with status 204, the permissions module calls
  \<open>client.clients.authorizations.permissions.find\<close> and the policies module calls
  \<open>client.clients.authorizations.policies.find\<close>, on the same arguments.
\<close>

theorem update_calls_own_find:
  "find_calls
     (run (answers JNull 204 JUndefined)
        (permissions_update (stored_token (JStr ''token'')) kc (JStr ''master'') (JStr ''c1'')
           (JObj [(''id'', JStr ''p1''), (''type'', JStr ''resource'')]))) =
     [FindCall Permissions (JStr ''master'') (JStr ''c1'') (JStr ''resource'') (JStr ''p1'')]
   \<and> find_calls
     (run (answers JNull 204 JUndefined)
        (policies_update (stored_token (JStr ''token'')) kc (JStr ''master'') (JStr ''c1'')
           (JObj [(''id'', JStr ''p1''), (''type'', JStr ''resource'')]))) =
     [FindCall Policies (JStr ''master'') (JStr ''c1'') (JStr ''resource'') (JStr ''p1'')]
   \<and> FindCall Permissions (JStr ''master'') (JStr ''c1'') (JStr ''resource'') (JStr ''p1'') \<noteq>
     FindCall Policies (JStr ''master'') (JStr ''c1'') (JStr ''resource'') (JStr ''p1'')"
  by (simp add: permissions_update_def policies_update_def permissions_update_callback_def
      policies_update_callback_def find_calls_def example_defs)

section \<open>Find with half a pair\<close>

text \<open>
  C9, as the code has it. A \<open>find\<close> whose type and id are not both truthy (one
  given and the other absent or falsy, or the given one itself falsy) is the very
  operation that \<open>find\<close> without the pair is: the values are ignored, even where
  they could not be printed. When realm and client id convert to strings and the client
  has its credential entry, it issues the request for the bare collection URL of the
  module and does not reject locally; otherwise its executor throws a TypeError, no
  request is made and the promise is rejected.
\<close>

theorem find_with_half_pair_lists:
  assumes "\<not> (truthy record_type \<and> truthy record_id)"
  shows "perform P c (Find m realm id' record_type record_id) =
           perform P c (Find m realm id' JUndefined JUndefined)
       \<and> (to_string realm = Some R \<and> to_string id' = Some C
            \<and> get_prop (P c) Prop_accessToken = Some tok \<longrightarrow>
            (\<exists>cb. perform P c (Find m realm id' record_type record_id) =
               Requested
                 \<lparr> url = spec_url (baseUrl c) R C (path_segment m) None None,
                   auth = \<lparr> bearer = tok \<rparr>, body = None, method' = None, json = True \<rparr>
                 cb))
       \<and> (\<not> (printable realm \<and> printable id' \<and> logged_in P c) \<longrightarrow>
            run T (perform P c (Find m realm id' record_type record_id)) = [Throw]
            \<and> settle F (run T (perform P c (Find m realm id' record_type record_id))) =
                Rejected_TypeError)"
proof -
  have same: "perform P c (Find m realm id' record_type record_id) =
      perform P c (Find m realm id' JUndefined JUndefined)"
    using assms by (cases m) (auto simp: module_defs)
  have listed: "\<exists>cb. perform P c (Find m realm id' record_type record_id) =
      Requested
        \<lparr> url = spec_url (baseUrl c) R C (path_segment m) None None,
          auth = \<lparr> bearer = tok \<rparr>, body = None, method' = None, json = True \<rparr>
        cb"
    if "to_string realm = Some R" "to_string id' = Some C"
      "get_prop (P c) Prop_accessToken = Some tok"
  proof -
    from assms have "\<not> (truthy record_id \<and> truthy record_type)" by blast
    from find_list_request
      [where P = P and c = c and m = m and t = record_type and i = record_id, OF this that]
    show ?thesis by blast
  qed
  have thrown: "perform P c (Find m realm id' record_type record_id) = Finished [Throw]"
    if "\<not> (printable realm \<and> printable id' \<and> logged_in P c)"
    using that assms by (intro not_ready_throws) auto
  from same listed thrown show ?thesis by auto
qed

theorem find_with_half_pair_lists_witness:
  "perform (stored_token (JStr ''token'')) kc
     (Find Permissions (JStr ''master'') (JStr ''c1'') (JNum ''0'') (JStr ''p1'')) =
   perform (stored_token (JStr ''token'')) kc
     (Find Permissions (JStr ''master'') (JStr ''c1'') JUndefined JUndefined)
   \<and> (\<exists>cb. perform (stored_token (JStr ''token'')) kc
        (Find Policies (JStr ''master'') (JStr ''c1'') (JStr ''role'') JUndefined) =
        Requested
          \<lparr> url = ''http://127.0.0.1:8080/auth/admin/realms/master/clients/c1/authz/resource-server/policy'',
            auth = \<lparr> bearer = JStr ''token'' \<rparr>, body = None, method' = None, json = True \<rparr>
          cb)
   \<and> run (answers JNull 200 JUndefined)
       (perform no_entry kc
          (Find Policies (JStr ''master'') (JStr ''c1'') (JStr ''role'') JUndefined)) = [Throw]"
proof -
  have h1: "\<not> (truthy (JNum ''0'') \<and> truthy (JStr ''p1''))" by simp
  have h2: "\<not> (truthy (JStr ''role'') \<and> truthy JUndefined)" by simp
  note a = find_with_half_pair_lists
    [where P = "stored_token (JStr ''token'')" and c = kc and m = Permissions
       and realm = "JStr ''master''" and id' = "JStr ''c1''" and R = "''master''"
       and C = "''c1''" and tok = "JStr ''token''" and T = "answers JNull 200 JUndefined"
       and F = "find_yields JNull", OF h1]
  note b = find_with_half_pair_lists
    [where P = "stored_token (JStr ''token'')" and c = kc and m = Policies
       and realm = "JStr ''master''" and id' = "JStr ''c1''" and R = "''master''"
       and C = "''c1''" and tok = "JStr ''token''" and T = "answers JNull 200 JUndefined"
       and F = "find_yields JNull", OF h2]
  note d = find_with_half_pair_lists
    [where P = no_entry and c = kc and m = Policies and realm = "JStr ''master''"
       and id' = "JStr ''c1''" and R = "''master''" and C = "''c1''"
       and tok = "JStr ''token''" and T = "answers JNull 200 JUndefined"
       and F = "find_yields JNull", OF h2]
  have e1: "to_string (JStr ''master'') = Some ''master''" "to_string (JStr ''c1'') = Some ''c1''"
    "get_prop (stored_token (JStr ''token'') kc) Prop_accessToken = Some (JStr ''token'')"
    by (simp_all add: stored_token_def)
  have e2: "\<not> (printable (JStr ''master'') \<and> printable (JStr ''c1'') \<and> logged_in no_entry kc)"
    by (simp add: ready_defs no_entry_def)
  have e3: "spec_url (baseUrl kc) ''master'' ''c1'' (path_segment Policies) None None =
      ''http://127.0.0.1:8080/auth/admin/realms/master/clients/c1/authz/resource-server/policy''"
    by (simp add: spec_url_def kc_def)
  from a have "perform (stored_token (JStr ''token'')) kc
      (Find Permissions (JStr ''master'') (JStr ''c1'') (JNum ''0'') (JStr ''p1'')) =
    perform (stored_token (JStr ''token'')) kc
      (Find Permissions (JStr ''master'') (JStr ''c1'') JUndefined JUndefined)"
    by blast
  moreover
  from b e1 e3 have "\<exists>cb. perform (stored_token (JStr ''token'')) kc
        (Find Policies (JStr ''master'') (JStr ''c1'') (JStr ''role'') JUndefined) =
        Requested
          \<lparr> url = ''http://127.0.0.1:8080/auth/admin/realms/master/clients/c1/authz/resource-server/policy'',
            auth = \<lparr> bearer = JStr ''token'' \<rparr>, body = None, method' = None, json = True \<rparr>
          cb"
    by metis
  moreover
  from d e2 have "run (answers JNull 200 JUndefined)
       (perform no_entry kc
          (Find Policies (JStr ''master'') (JStr ''c1'') (JStr ''role'') JUndefined)) = [Throw]"
    by blast
  ultimately show ?thesis by blast
qed

text \<open>
  The statement that such a call never rejects locally fails where the executor
  throws: with the realm \<open>{toString: 'x'}\<close>, or on a client without a credential
  entry, a \<open>find\<close> given the type alone makes no request and its promise is
  rejected with the TypeError.
\<close>

theorem find_with_half_pair_throws:
  "requests
     (run (answers JNull 200 JUndefined)
        (perform (stored_token (JStr ''token'')) kc
           (Find Permissions (JObj [(''toString'', JStr ''x'')]) (JStr ''c1'')
              (JStr ''resource'') JUndefined))) = []
   \<and> settle (find_yields JNull)
     (run (answers JNull 200 JUndefined)
        (perform (stored_token (JStr ''token'')) kc
           (Find Permissions (JObj [(''toString'', JStr ''x'')]) (JStr ''c1'')
              (JStr ''resource'') JUndefined))) = Rejected_TypeError
   \<and> requests
     (run (answers JNull 200 JUndefined)
        (perform no_entry kc
           (Find Policies (JStr ''master'') (JStr ''c1'') (JStr ''role'') JUndefined))) = []
   \<and> settle (find_yields JNull)
     (run (answers JNull 200 JUndefined)
        (perform no_entry kc
           (Find Policies (JStr ''master'') (JStr ''c1'') (JStr ''role'') JUndefined))) =
     Rejected_TypeError"
  by (simp add: permissions_find_def policies_find_def requests_def example_defs)

section \<open>Records without a type or an id\<close>

text \<open>
  C10, as the code has it. A \<open>create\<close> or an \<open>update\<close> whose record is an object
  is never rejected for a missing argument, whatever fields the object has. When the
  record has no \<open>type\<close> field (or, for \<open>update\<close>, no \<open>id\<close> field), realm, client
  id and the other field convert to strings and the client has its credential entry,
  the request is issued, and the path segment of the missing field is the string
  \<open>undefined\<close>. When the operation is not ready, the executor throws a TypeError and
  no request is issued.
\<close>

theorem missing_field_becomes_undefined_segment:
  "run T (perform P c (Create m realm id' (JObj fs))) \<noteq>
     [Reject (JError (argument_name m @ '' is missing''))]
   \<and> run T (perform P c (Update m realm id' (JObj fs))) \<noteq>
     [Reject (JError (argument_name m @ '' is missing''))]
   \<and> (to_string realm = Some R \<and> to_string id' = Some C
        \<and> get_prop (P c) Prop_accessToken = Some tok \<longrightarrow>
        (map_of fs ''type'' = None \<longrightarrow>
           (\<exists>cb. perform P c (Create m realm id' (JObj fs)) =
              Requested
                \<lparr> url = spec_url (baseUrl c) R C (path_segment m) (Some ''undefined'') None,
                  auth = \<lparr> bearer = tok \<rparr>, body = Some (JObj fs), method' = Some ''POST'',
                  json = True \<rparr>
                cb))
        \<and> (map_of fs ''type'' = None \<and> get_prop (JObj fs) Prop_id = Some i
             \<and> to_string i = Some ds \<longrightarrow>
           (\<exists>cb. perform P c (Update m realm id' (JObj fs)) =
              Requested
                \<lparr> url = spec_url (baseUrl c) R C (path_segment m) (Some ''undefined'')
                          (Some ds),
                  auth = \<lparr> bearer = tok \<rparr>, body = Some (JObj fs), method' = Some ''PUT'',
                  json = True \<rparr>
                cb))
        \<and> (map_of fs ''id'' = None \<and> get_prop (JObj fs) Prop_type = Some t
             \<and> to_string t = Some ts \<longrightarrow>
           (\<exists>cb. perform P c (Update m realm id' (JObj fs)) =
              Requested
                \<lparr> url = spec_url (baseUrl c) R C (path_segment m) (Some ts)
                          (Some ''undefined''),
                  auth = \<lparr> bearer = tok \<rparr>, body = Some (JObj fs), method' = Some ''PUT'',
                  json = True \<rparr>
                cb)))
   \<and> (\<not> ready P c (Create m realm id' (JObj fs)) \<longrightarrow>
        run T (perform P c (Create m realm id' (JObj fs))) = [Throw])
   \<and> (\<not> ready P c (Update m realm id' (JObj fs)) \<longrightarrow>
        run T (perform P c (Update m realm id' (JObj fs))) = [Throw])"
proof -
  have no_missing:
    "run T (perform P c (Create m realm id' (JObj fs))) \<noteq>
       [Reject (JError (argument_name m @ '' is missing''))]"
    "run T (perform P c (Update m realm id' (JObj fs))) \<noteq>
       [Reject (JError (argument_name m @ '' is missing''))]"
    by (cases m; simp add: module_defs split: option.splits)+
  have create: "\<exists>cb. perform P c (Create m realm id' (JObj fs)) =
      Requested
        \<lparr> url = spec_url (baseUrl c) R C (path_segment m) (Some ''undefined'') None,
          auth = \<lparr> bearer = tok \<rparr>, body = Some (JObj fs), method' = Some ''POST'',
          json = True \<rparr>
        cb"
    if "to_string realm = Some R" "to_string id' = Some C"
      "get_prop (P c) Prop_accessToken = Some tok" "map_of fs ''type'' = None"
    using create_request
      [where P = P and c = c and m = m and rcd = "JObj fs" and t = JUndefined
         and ts = "''undefined''" and realm = realm and id' = id' and R = R and C = C
         and tok = tok] that
    by simp
  have update_type: "\<exists>cb. perform P c (Update m realm id' (JObj fs)) =
      Requested
        \<lparr> url = spec_url (baseUrl c) R C (path_segment m) (Some ''undefined'') (Some ds),
          auth = \<lparr> bearer = tok \<rparr>, body = Some (JObj fs), method' = Some ''PUT'',
          json = True \<rparr>
        cb"
    if "to_string realm = Some R" "to_string id' = Some C"
      "get_prop (P c) Prop_accessToken = Some tok" "map_of fs ''type'' = None"
      "get_prop (JObj fs) Prop_id = Some i" "to_string i = Some ds"
    using update_request
      [where P = P and c = c and m = m and rcd = "JObj fs" and t = JUndefined and i = i
         and ts = "''undefined''" and ds = ds and realm = realm and id' = id' and R = R
         and C = C and tok = tok] that
    by simp
  have update_id: "\<exists>cb. perform P c (Update m realm id' (JObj fs)) =
      Requested
        \<lparr> url = spec_url (baseUrl c) R C (path_segment m) (Some ts) (Some ''undefined''),
          auth = \<lparr> bearer = tok \<rparr>, body = Some (JObj fs), method' = Some ''PUT'',
          json = True \<rparr>
        cb"
    if "to_string realm = Some R" "to_string id' = Some C"
      "get_prop (P c) Prop_accessToken = Some tok" "map_of fs ''id'' = None"
      "get_prop (JObj fs) Prop_type = Some t" "to_string t = Some ts"
    using update_request
      [where P = P and c = c and m = m and rcd = "JObj fs" and t = t and i = JUndefined
         and ts = ts and ds = "''undefined''" and realm = realm and id' = id' and R = R
         and C = C and tok = tok] that
    by simp
  have thrown:
    "\<not> ready P c (Create m realm id' (JObj fs)) \<Longrightarrow>
       run T (perform P c (Create m realm id' (JObj fs))) = [Throw]"
    "\<not> ready P c (Update m realm id' (JObj fs)) \<Longrightarrow>
       run T (perform P c (Update m realm id' (JObj fs))) = [Throw]"
    using not_ready_throws [of "Create m realm id' (JObj fs)" P c]
      not_ready_throws [of "Update m realm id' (JObj fs)" P c]
    by simp_all
  from no_missing create update_type update_id thrown show ?thesis by blast
qed

theorem missing_field_becomes_undefined_segment_witness:
  "(\<exists>cb. perform (stored_token (JStr ''token'')) kc
       (Create Permissions (JStr ''master'') (JStr ''c1'') (JObj [(''name'', JStr ''p'')])) =
       Requested
         \<lparr> url = ''http://127.0.0.1:8080/auth/admin/realms/master/clients/c1/authz/resource-server/permission/undefined'',
           auth = \<lparr> bearer = JStr ''token'' \<rparr>, body = Some (JObj [(''name'', JStr ''p'')]),
           method' = Some ''POST'', json = True \<rparr>
         cb)
   \<and> (\<exists>cb. perform (stored_token (JStr ''token'')) kc
       (Update Policies (JStr ''master'') (JStr ''c1'') (JObj [(''type'', JStr ''role'')])) =
       Requested
         \<lparr> url = ''http://127.0.0.1:8080/auth/admin/realms/master/clients/c1/authz/resource-server/policy/role/undefined'',
           auth = \<lparr> bearer = JStr ''token'' \<rparr>, body = Some (JObj [(''type'', JStr ''role'')]),
           method' = Some ''PUT'', json = True \<rparr>
         cb)"
proof -
  note a = missing_field_becomes_undefined_segment
    [where P = "stored_token (JStr ''token'')" and c = kc and m = Permissions
       and realm = "JStr ''master''" and id' = "JStr ''c1''" and R = "''master''"
       and C = "''c1''" and tok = "JStr ''token''" and fs = "[(''name'', JStr ''p'')]"]
  note b = missing_field_becomes_undefined_segment
    [where P = "stored_token (JStr ''token'')" and c = kc and m = Policies
       and realm = "JStr ''master''" and id' = "JStr ''c1''" and R = "''master''"
       and C = "''c1''" and tok = "JStr ''token''" and fs = "[(''type'', JStr ''role'')]"
       and t = "JStr ''role''" and ts = "''role''"]
  from a b show ?thesis by (simp add: stored_token_def spec_url_def kc_def)
qed

text \<open>
  The statement that the request is issued for every such record fails where the
  executor throws: with the realm \<open>{toString: 'x'}\<close>, or on a client without a
  credential entry, a \<open>create\<close> of a record without a type makes no request.
\<close>

theorem typeless_create_throws:
  "run (answers JNull 201 JUndefined)
     (perform (stored_token (JStr ''token'')) kc
        (Create Permissions (JObj [(''toString'', JStr ''x'')]) (JStr ''c1'')
           (JObj [(''name'', JStr ''p'')]))) = [Throw]
   \<and> requests
     (run (answers JNull 201 JUndefined)
        (perform (stored_token (JStr ''token'')) kc
           (Create Permissions (JObj [(''toString'', JStr ''x'')]) (JStr ''c1'')
              (JObj [(''name'', JStr ''p'')])))) = []
   \<and> requests
     (run (answers JNull 201 JUndefined)
        (perform no_entry kc
           (Create Policies (JStr ''master'') (JStr ''c1'')
              (JObj [(''name'', JStr ''p'')])))) = []"
  by (simp add: permissions_create_def policies_create_def requests_def example_defs)


end
